theory Spec2Isabelle
  imports Main "HOL-Library.Sublist"
begin

section \<open>Go standard library functions the program calls\<close>

text \<open>
  A Go \<^verbatim>\<open>string\<close> and a \<^verbatim>\<open>[]byte\<close> are both sequences of bytes; an Isabelle
  \<^typ>\<open>char\<close> is one byte, so both are modelled as \<^typ>\<open>string\<close>. A nil slice and
  an empty slice are both the empty list (the program only ever takes their length or
  ranges over them). A nil pointer is \<^term>\<open>None\<close>.
\<close>

type_synonym bytes = string

text \<open>
  \<^verbatim>\<open>fmt.Sprintf("%d", n)\<close>: the decimal digits of an integer, with a minus sign for
  a negative one.
\<close>

definition digit_char :: "nat \<Rightarrow> char" where
  "digit_char d = ''0123456789'' ! d"

fun string_of_nat :: "nat \<Rightarrow> string" where
  "string_of_nat n =
     (if n < 10 then [digit_char n]
      else string_of_nat (n div 10) @ [digit_char (n mod 10)])"

declare string_of_nat.simps [simp del]

definition fmt_d :: "int \<Rightarrow> string" where
  "fmt_d i = (if 0 \<le> i then string_of_nat (nat i) else CHR ''-'' # string_of_nat (nat (- i)))"

text \<open>
  \<^verbatim>\<open>filepath.Ext\<close> (Unix separator): scanning from the end of the path, the suffix
  that starts at the first dot met before any \<^verbatim>\<open>/\<close>; empty when a separator or the
  start of the path comes first. \<open>ext_scan\<close> walks the reversed path and carries the
  bytes already passed.
\<close>

fun ext_scan :: "string \<Rightarrow> string \<Rightarrow> string" where
  "ext_scan [] seen = []"
| "ext_scan (c # cs) seen =
     (if c = CHR ''/'' then []
      else if c = CHR ''.'' then c # seen
      else ext_scan cs (c # seen))"

definition filepath_Ext :: "string \<Rightarrow> string" where
  "filepath_Ext path = ext_scan (rev path) []"



text \<open>\<^verbatim>\<open>strings.Contains\<close>: the second string occurs as a contiguous run of the first.\<close>

definition strings_Contains :: "string \<Rightarrow> string \<Rightarrow> bool" where
  "strings_Contains s substr \<longleftrightarrow> sublist substr s"


text \<open>
  \<^verbatim>\<open>strings.ToLower\<close>: a string of ASCII bytes only has its letters \<^verbatim>\<open>A\<close>..\<^verbatim>\<open>Z\<close>
  replaced by \<^verbatim>\<open>a\<close>..\<^verbatim>\<open>z\<close>; any other string goes through the Unicode tables
  (\<^verbatim>\<open>strings.Map(unicode.ToLower, s)\<close>), which are a parameter here.
\<close>

definition ascii_lower :: "char \<Rightarrow> char" where
  "ascii_lower c =
     (if (65::nat) \<le> of_char c \<and> of_char c \<le> (90::nat)
      then char_of (of_char c + (32::nat)) else c)"

definition strings_ToLower :: "(string \<Rightarrow> string) \<Rightarrow> string \<Rightarrow> string" where
  "strings_ToLower unicode_lower s =
     (if list_all (\<lambda>c. of_char c < (128::nat)) s then map ascii_lower s
      else unicode_lower s)"

section \<open>Package gemini: types (src/internal/gemini/types.go)\<close>

record InlineData =
  MIMEType :: string
  Data :: string

record Part =
  Text :: string
  InlineData :: "InlineData option"

record Content =
  Role :: string
  Parts :: "Part list"

record GenerationConfig =
  ResponseModalities :: "string list"

record GenerateRequest =
  Contents :: "Content list"
  GenerationConfig :: GenerationConfig

record SafetyRating =
  Category :: string
  Probability :: string

record Candidate =
  Content :: "Content option"
  FinishReason :: string
  SafetyRatings :: "SafetyRating list"

record PromptFeedback =
  BlockReason :: string
  SafetyRatings :: "SafetyRating list"

record GenerateResponse =
  Candidates :: "Candidate list"
  PromptFeedback :: "PromptFeedback option"

record ImageResult =
  Data :: bytes
  MIMEType :: string

text \<open>The anonymous struct in the \<^verbatim>\<open>Error\<close> field of \<^verbatim>\<open>ErrorResponse\<close>.\<close>

record ErrorBody =
  Code :: int
  Message :: string
  Status :: string

record ErrorResponse =
  Error :: ErrorBody

section \<open>Package gemini: the client (src/internal/gemini/prompt.go)\<close>

definition ExitGeneral :: int where "ExitGeneral = 1"
definition ExitUsage :: int where "ExitUsage = 2"
definition ExitAuth :: int where "ExitAuth = 3"
definition ExitRateLimit :: int where "ExitRateLimit = 4"
definition ExitAPI :: int where "ExitAPI = 5"
definition ExitFileIO :: int where "ExitFileIO = 10"

record Client =
  APIKey :: string
  Model :: string
  BaseURL :: string

record APIError =
  StatusCode :: int
  Message :: string
  ExitCode :: int

text \<open>
  A Go \<^verbatim>\<open>error\<close> returned by this package is either a \<^verbatim>\<open>*APIError\<close> or an error
  built by \<^verbatim>\<open>fmt.Errorf\<close>, which has a message and nothing else. An error of the
  standard library is represented by its message.
\<close>

datatype go_error = APIErr APIError | Errorf string

fun error_message :: "go_error \<Rightarrow> string" where
  "error_message (APIErr a) = APIError.Message a"
| "error_message (Errorf m) = m"

text \<open>
  What the HTTP round trip of \<^verbatim>\<open>doRequest\<close> can come to: \<^verbatim>\<open>http.NewRequest\<close>
  fails, \<^verbatim>\<open>HTTPClient.Do\<close> fails, \<^verbatim>\<open>io.ReadAll\<close> fails, or there is a status
  code and a body.
\<close>

datatype http_result =
    NewRequestFailed string
  | DoFailed string
  | ReadAllFailed string
  | Response int bytes

text \<open>
  The world outside the package, as the functions of the standard library the package
  calls. \<open>json_Unmarshal_ErrorResponse\<close> gives the error \<^verbatim>\<open>json.Unmarshal\<close> returns
  for a body, if any, and the \<^verbatim>\<open>ErrorResponse\<close> variable as the call leaves it: the
  decoder may report an error and still have filled fields in.
  \<open>http_roundtrip\<close> takes the URL, the API key header and the request body.
\<close>

record env =
  json_Marshal :: "GenerateRequest \<Rightarrow> string + bytes"
  http_roundtrip :: "string \<Rightarrow> string \<Rightarrow> bytes \<Rightarrow> http_result"
  json_Unmarshal_GenerateResponse :: "bytes \<Rightarrow> string + GenerateResponse"
  json_Unmarshal_ErrorResponse :: "bytes \<Rightarrow> string option \<times> ErrorResponse"
  base64_DecodeString :: "string \<Rightarrow> string + bytes"
  base64_EncodeToString :: "bytes \<Rightarrow> string"
  os_ReadFile :: "string \<Rightarrow> string + bytes"
  strconv_Quote :: "string \<Rightarrow> string"
  unicode_ToLower :: "string \<Rightarrow> string"

text \<open>
  \<^verbatim>\<open>parseAPIError\<close> drops the error of the decoder (\<^verbatim>\<open>_ = json.Unmarshal(...)\<close>) and
  reads the variable.
\<close>

definition parseAPIError :: "env \<Rightarrow> int \<Rightarrow> bytes \<Rightarrow> APIError" where
  "parseAPIError e statusCode body =
     (let errResp = snd (json_Unmarshal_ErrorResponse e body);
          msg = ErrorBody.Message (Error errResp);
          msg = (if msg = '''' then ''API error (HTTP '' @ fmt_d statusCode @ '')'' else msg)
      in if statusCode = 401 \<or> statusCode = 403 then
           \<lparr>StatusCode = statusCode,
            Message = ''authentication failed: '' @ msg @
              [CHR 0x0A, CHR 0x0A] @
              ''Set GEMINI_API_KEY or run: naba config set api_key <your-key>'',
            ExitCode = ExitAuth\<rparr>
         else if statusCode = 429 then
           \<lparr>StatusCode = statusCode,
            Message = ''rate limit exceeded: '' @ msg @
              [CHR 0x0A, CHR 0x0A] @ ''Wait a moment and try again.'',
            ExitCode = ExitRateLimit\<rparr>
         else if statusCode \<ge> 500 then
           \<lparr>StatusCode = statusCode,
            Message = ''Gemini server error: '' @ msg @
              [CHR 0x0A, CHR 0x0A] @ ''This is a temporary issue. Try again shortly.'',
            ExitCode = ExitAPI\<rparr>
         else
           \<lparr>StatusCode = statusCode, Message = msg, ExitCode = ExitAPI\<rparr>)"

text \<open>
  \<^verbatim>\<open>extractImages\<close>: the inner loop over the parts of one candidate and the outer
  loop over the candidates, each carrying the slice \<^verbatim>\<open>images\<close> built so far; a
  decode failure returns from the whole function at once.
\<close>

fun extractParts :: "env \<Rightarrow> Part list \<Rightarrow> ImageResult list \<Rightarrow> go_error + ImageResult list" where
  "extractParts e [] images = Inr images"
| "extractParts e (part # parts) images =
     (case InlineData part of
        None \<Rightarrow> extractParts e parts images
      | Some inl \<Rightarrow>
          (case base64_DecodeString e (InlineData.Data inl) of
             Inl err \<Rightarrow> Inl (Errorf (''decode image data: '' @ err))
           | Inr data \<Rightarrow>
               extractParts e parts
                 (images @ [\<lparr>ImageResult.Data = data,
                             MIMEType = InlineData.MIMEType inl\<rparr>])))"

fun extractCandidates ::
  "env \<Rightarrow> Candidate list \<Rightarrow> ImageResult list \<Rightarrow> go_error + ImageResult list" where
  "extractCandidates e [] images = Inr images"
| "extractCandidates e (candidate # candidates) images =
     (case Content candidate of
        None \<Rightarrow> extractCandidates e candidates images
      | Some content \<Rightarrow>
          (case extractParts e (Parts content) images of
             Inl err \<Rightarrow> Inl err
           | Inr images' \<Rightarrow> extractCandidates e candidates images'))"

definition extractImages :: "env \<Rightarrow> GenerateResponse \<Rightarrow> go_error + ImageResult list" where
  "extractImages e resp =
     (case extractCandidates e (Candidates resp) [] of
        Inl err \<Rightarrow> Inl err
      | Inr images \<Rightarrow>
          if length images = 0 then
            Inl (APIErr \<lparr>StatusCode = 0, Message = ''no images in response'',
                         ExitCode = ExitAPI\<rparr>)
          else Inr images)"

definition doRequest :: "env \<Rightarrow> Client \<Rightarrow> GenerateRequest \<Rightarrow> go_error + ImageResult list" where
  "doRequest e c req =
     (case json_Marshal e req of
        Inl err \<Rightarrow> Inl (Errorf (''marshal request: '' @ err))
      | Inr body \<Rightarrow>
          (case http_roundtrip e (BaseURL c @ ''/models/'' @ Model c @ '':generateContent'')
                  (APIKey c) body of
             NewRequestFailed err \<Rightarrow> Inl (Errorf (''create request: '' @ err))
           | DoFailed err \<Rightarrow> Inl (Errorf (''api request failed: '' @ err))
           | ReadAllFailed err \<Rightarrow> Inl (Errorf (''read response: '' @ err))
           | Response statusCode respBody \<Rightarrow>
               if statusCode \<noteq> 200 then Inl (APIErr (parseAPIError e statusCode respBody))
               else
                 (case json_Unmarshal_GenerateResponse e respBody of
                    Inl err \<Rightarrow> Inl (Errorf (''parse response: '' @ err))
                  | Inr genResp \<Rightarrow>
                      (case PromptFeedback genResp of
                         None \<Rightarrow> extractImages e genResp
                       | Some feedback \<Rightarrow>
                           if BlockReason feedback \<noteq> '''' then
                             Inl (APIErr
                               \<lparr>StatusCode = 0,
                                Message = ''prompt blocked: '' @ BlockReason feedback,
                                ExitCode = ExitAPI\<rparr>)
                           else extractImages e genResp))))"

definition detectMIMEType :: "env \<Rightarrow> string \<Rightarrow> string" where
  "detectMIMEType e path =
     (let ext = strings_ToLower (unicode_ToLower e) (filepath_Ext path)
      in if ext = ''.png'' then ''image/png''
         else if ext = ''.jpg'' \<or> ext = ''.jpeg'' then ''image/jpeg''
         else if ext = ''.gif'' then ''image/gif''
         else if ext = ''.webp'' then ''image/webp''
         else if ext = ''.bmp'' then ''image/bmp''
         else ''image/png'')"

text \<open>\<^verbatim>\<open>readImageFile\<close> returns the encoded data and the MIME type, or the error.\<close>

definition readImageFile :: "env \<Rightarrow> string \<Rightarrow> go_error + (string \<times> string)" where
  "readImageFile e path =
     (case os_ReadFile e path of
        Inl err \<Rightarrow>
          Inl (APIErr \<lparr>StatusCode = 0,
                       Message = ''read image file '' @ strconv_Quote e path @ '': '' @ err,
                       ExitCode = ExitFileIO\<rparr>)
      | Inr data \<Rightarrow> Inr (base64_EncodeToString e data, detectMIMEType e path))"

text \<open>
  The request literals of \<^verbatim>\<open>Generate\<close> and \<^verbatim>\<open>GenerateWithImage\<close>, named so that
  they can be spoken about; each function hands its literal to \<^verbatim>\<open>doRequest\<close>.
\<close>

definition Generate_request :: "string \<Rightarrow> GenerateRequest" where
  "Generate_request prompt =
     \<lparr>Contents = [\<lparr>Role = ''user'', Parts = [\<lparr>Text = prompt, InlineData = None\<rparr>]\<rparr>],
      GenerationConfig = \<lparr>ResponseModalities = [''TEXT'', ''IMAGE'']\<rparr>\<rparr>"

definition Generate :: "env \<Rightarrow> Client \<Rightarrow> string \<Rightarrow> go_error + ImageResult list" where
  "Generate e c prompt = doRequest e c (Generate_request prompt)"

definition GenerateWithImage_request :: "string \<Rightarrow> string \<Rightarrow> string \<Rightarrow> GenerateRequest" where
  "GenerateWithImage_request prompt imageData mimeType =
     \<lparr>Contents =
        [\<lparr>Role = ''user'',
          Parts = [\<lparr>Text = prompt, InlineData = None\<rparr>,
                   \<lparr>Text = '''',
                    InlineData = Some \<lparr>InlineData.MIMEType = mimeType, Data = imageData\<rparr>\<rparr>]\<rparr>],
      GenerationConfig = \<lparr>ResponseModalities = [''TEXT'', ''IMAGE'']\<rparr>\<rparr>"

definition GenerateWithImage ::
  "env \<Rightarrow> Client \<Rightarrow> string \<Rightarrow> string \<Rightarrow> go_error + ImageResult list" where
  "GenerateWithImage e c prompt imagePath =
     (case readImageFile e imagePath of
        Inl err \<Rightarrow> Inl err
      | Inr (imageData, mimeType) \<Rightarrow>
          doRequest e c (GenerateWithImage_request prompt imageData mimeType))"

section \<open>Package cli: mapping an error to an exit code (src/unnamed/part_002)\<close>

record exitCodeError =
  code :: int
  message :: string

definition exitError :: "int \<Rightarrow> string \<Rightarrow> exitCodeError" where
  "exitError c msg = \<lparr>code = c, message = msg\<rparr>"

text \<open>The type assertion \<^verbatim>\<open>err.(*gemini.APIError)\<close>.\<close>

fun as_APIError :: "go_error \<Rightarrow> APIError option" where
  "as_APIError (APIErr apiErr) = Some apiErr"
| "as_APIError (Errorf m) = None"

definition handleAPIError :: "go_error \<Rightarrow> exitCodeError" where
  "handleAPIError err =
     (case as_APIError err of
        Some apiErr \<Rightarrow> exitError (ExitCode apiErr) (APIError.Message apiErr)
      | None \<Rightarrow> exitError ExitGeneral (error_message err))"

section \<open>Package output: the file writer (src/internal/output/writer.go)\<close>










section \<open>Package cli: writing the images of one response (src/internal/cli/edit.go)\<close>


section \<open>A concrete world for evaluating the definitions\<close>

text \<open>
  \<^verbatim>\<open>base64.StdEncoding\<close> of the Go standard library (RFC 4648 alphabet, padding
  with \<^verbatim>\<open>=\<close>, not strict). The theorems below hold for every encoder and decoder;
  these two are the ones a concrete world is built from.
\<close>

definition b64_alphabet :: string where
  "b64_alphabet = ''ABCDEFGHIJKLMNOPQRSTUVWXYZabcdefghijklmnopqrstuvwxyz0123456789+/''"

fun b64_encode :: "nat list \<Rightarrow> string" where
  "b64_encode [] = []"
| "b64_encode [a] =
     [b64_alphabet ! (a div 4), b64_alphabet ! ((a mod 4) * 16), CHR ''='', CHR ''='']"
| "b64_encode [a, b] =
     [b64_alphabet ! (a div 4), b64_alphabet ! ((a mod 4) * 16 + b div 16),
      b64_alphabet ! ((b mod 16) * 4), CHR ''='']"
| "b64_encode (a # b # c # rest) =
     [b64_alphabet ! (a div 4), b64_alphabet ! ((a mod 4) * 16 + b div 16),
      b64_alphabet ! ((b mod 16) * 4 + c div 64), b64_alphabet ! (c mod 64)]
     @ b64_encode rest"

definition StdEncoding_EncodeToString :: "bytes \<Rightarrow> string" where
  "StdEncoding_EncodeToString data = b64_encode (map of_char data)"

text \<open>The decode map: the 6-bit value of an alphabet byte, \<^term>\<open>None\<close> for any other.\<close>

definition b64_value :: "char \<Rightarrow> nat option" where
  "b64_value c =
     (let n = (of_char c :: nat)
      in if 65 \<le> n \<and> n \<le> 90 then Some (n - 65)
         else if 97 \<le> n \<and> n \<le> 122 then Some (n - 71)
         else if 48 \<le> n \<and> n \<le> 57 then Some (n + 4)
         else if n = 43 then Some 62
         else if n = 47 then Some 63
         else None)"

definition is_newline :: "char \<Rightarrow> bool" where
  "is_newline c \<longleftrightarrow> c = CHR 0x0A \<or> c = CHR 0x0D"

text \<open>
  The decoder reads the source byte by byte: \<open>si\<close> is the index of the next byte,
  \<open>dbuf\<close> the values of the quantum being read, \<open>out\<close> the bytes decoded so far and
  \<open>n\<close> the length of the whole source. The result is the decoded bytes or the offset
  of a \<^verbatim>\<open>CorruptInputError\<close>. Newlines are skipped wherever they stand;
  \<open>b64_pad2\<close> reads on after the first \<^verbatim>\<open>=\<close> of a quantum of two values, and
  \<open>b64_tail\<close> after the padding, where nothing but newlines may follow.
\<close>

fun b64_quantum :: "nat list \<Rightarrow> nat list" where
  "b64_quantum [d0, d1] = [d0 * 4 + d1 div 16]"
| "b64_quantum [d0, d1, d2] = [d0 * 4 + d1 div 16, (d1 mod 16) * 16 + d2 div 4]"
| "b64_quantum [d0, d1, d2, d3] =
     [d0 * 4 + d1 div 16, (d1 mod 16) * 16 + d2 div 4, (d2 mod 4) * 64 + d3]"
| "b64_quantum ds = []"

fun b64_tail :: "string \<Rightarrow> nat \<Rightarrow> nat list \<Rightarrow> nat + nat list" where
  "b64_tail [] si res = Inr res"
| "b64_tail (c # cs) si res = (if is_newline c then b64_tail cs (Suc si) res else Inl si)"

fun b64_pad2 :: "string \<Rightarrow> nat \<Rightarrow> nat \<Rightarrow> nat list \<Rightarrow> nat + nat list" where
  "b64_pad2 [] si n res = Inl n"
| "b64_pad2 (c # cs) si n res =
     (if is_newline c then b64_pad2 cs (Suc si) n res
      else if c \<noteq> CHR ''='' then Inl (si - 1)
      else b64_tail cs (Suc si) res)"

fun b64_decode :: "string \<Rightarrow> nat \<Rightarrow> nat list \<Rightarrow> nat list \<Rightarrow> nat \<Rightarrow> nat + nat list" where
  "b64_decode [] si dbuf out n = (if dbuf = [] then Inr out else Inl (si - length dbuf))"
| "b64_decode (c # cs) si dbuf out n =
     (case b64_value c of
        Some v \<Rightarrow>
          if length dbuf = 3 then b64_decode cs (Suc si) [] (out @ b64_quantum (dbuf @ [v])) n
          else b64_decode cs (Suc si) (dbuf @ [v]) out n
      | None \<Rightarrow>
          if is_newline c then b64_decode cs (Suc si) dbuf out n
          else if c \<noteq> CHR ''='' then Inl si
          else if length dbuf = 2 then b64_pad2 cs (Suc si) n (out @ b64_quantum dbuf)
          else if length dbuf = 3 then b64_tail cs (Suc si) (out @ b64_quantum dbuf)
          else Inl si)"

definition StdEncoding_DecodeString :: "string \<Rightarrow> string + bytes" where
  "StdEncoding_DecodeString s =
     (case b64_decode s 0 [] [] (length s) of
        Inl off \<Rightarrow> Inl (''illegal base64 data at input byte '' @ string_of_nat off)
      | Inr out \<Rightarrow> Inr (map char_of out))"

text \<open>
  A world in which nothing answers: every request fails to connect, no body parses, no
  file can be read. A scenario overrides the fields it needs, as the tests of the
  package do with a test server. \<open>strconv_Quote\<close> is right here for strings without
  quotes, backslashes or control bytes; \<open>unicode_ToLower\<close> is never reached on ASCII.
\<close>

definition test_env :: env where
  "test_env =
     \<lparr>json_Marshal = (\<lambda>req. Inr ''{}''),
      http_roundtrip = (\<lambda>url key body. DoFailed ''connection refused''),
      json_Unmarshal_GenerateResponse = (\<lambda>body. Inl ''unexpected end of JSON input''),
      json_Unmarshal_ErrorResponse =
        (\<lambda>body. (Some ''unexpected end of JSON input'',
                  \<lparr>Error = \<lparr>Code = 0, ErrorBody.Message = '''', Status = ''''\<rparr>\<rparr>)),
      base64_DecodeString = StdEncoding_DecodeString,
      base64_EncodeToString = StdEncoding_EncodeToString,
      os_ReadFile = (\<lambda>path. Inl ''no such file or directory''),
      strconv_Quote = (\<lambda>s. [CHR 0x22] @ s @ [CHR 0x22]),
      unicode_ToLower = (\<lambda>s. s)\<rparr>"

text \<open>
  A test server that answers every request with one status and one body; \<open>decoded\<close>
  is what \<^verbatim>\<open>json.Unmarshal\<close> makes of that body as a \<^verbatim>\<open>GenerateResponse\<close>.
\<close>

definition test_server :: "int \<Rightarrow> bytes \<Rightarrow> string + GenerateResponse \<Rightarrow> env" where
  "test_server status body decoded =
     test_env
       \<lparr>http_roundtrip := (\<lambda>url key req. Response status body),
        json_Unmarshal_GenerateResponse :=
          (\<lambda>b. if b = body then decoded else Inl ''unexpected end of JSON input'')\<rparr>"

definition test_client :: Client where
  "test_client = \<lparr>APIKey = ''test-key'', Model = ''test-model'', BaseURL = ''http://127.0.0.1:8080''\<rparr>"

definition image_part :: "string \<Rightarrow> string \<Rightarrow> Part" where
  "image_part mime data =
     \<lparr>Text = '''', InlineData = Some \<lparr>InlineData.MIMEType = mime, Data = data\<rparr>\<rparr>"

definition text_part :: "string \<Rightarrow> Part" where
  "text_part t = \<lparr>Text = t, InlineData = None\<rparr>"

definition candidate_with :: "Part list \<Rightarrow> Candidate" where
  "candidate_with ps =
     \<lparr>Content = Some \<lparr>Role = ''model'', Parts = ps\<rparr>, FinishReason = '''',
      SafetyRatings = []\<rparr>"

definition candidate_without_content :: Candidate where
  "candidate_without_content = \<lparr>Content = None, FinishReason = '''', SafetyRatings = []\<rparr>"

text \<open>A response that carries a valid image and a block reason as well.\<close>

definition blocked_response :: GenerateResponse where
  "blocked_response =
     \<lparr>Candidates = [candidate_with [image_part ''image/png'' ''aGVsbG8='']],
      PromptFeedback = Some \<lparr>BlockReason = ''SAFETY'', SafetyRatings = []\<rparr>\<rparr>"

definition blocked_body :: bytes where
  "blocked_body =
     ''{\"candidates\":[{\"content\":{\"role\":\"model\",\"parts\":[{\"inlineData\":{\"mimeType\":\"image/png\",\"data\":\"aGVsbG8=\"}}]}}],\"promptFeedback\":{\"blockReason\":\"SAFETY\"}}''"

definition blocked_server :: env where
  "blocked_server = test_server 200 blocked_body (Inr blocked_response)"

text \<open>A server whose body is not JSON, with the error \<^verbatim>\<open>json.Unmarshal\<close> reports for it.\<close>

definition malformed_server :: env where
  "malformed_server =
     test_server 200 ''not json''
       (Inl ''invalid character 'o' in literal null (expecting 'u')'')"

text \<open>
  Three candidates: one without content, one with an image, a text and another image,
  one with a third image.
\<close>

definition three_image_response :: GenerateResponse where
  "three_image_response =
     \<lparr>Candidates =
        [candidate_without_content,
         candidate_with [image_part ''image/png'' ''aW1nLWE='', text_part ''two images'',
                         image_part ''image/png'' ''aW1nLWI=''],
         candidate_with [image_part ''image/jpeg'' ''aW1nLWM='']],
      PromptFeedback = None\<rparr>"

definition text_only_response :: GenerateResponse where
  "text_only_response =
     \<lparr>Candidates = [candidate_without_content, candidate_with [text_part ''some text, no image'']],
      PromptFeedback = None\<rparr>"

text \<open>A valid image followed by a payload that is not base64.\<close>

definition malformed_base64_response :: GenerateResponse where
  "malformed_base64_response =
     \<lparr>Candidates =
        [candidate_with [image_part ''image/png'' ''aGVsbG8='',
                         image_part ''image/png'' ''!!!invalid!!!'']],
      PromptFeedback = None\<rparr>"

text \<open>
  A world in which \<^verbatim>\<open>json.Unmarshal\<close> makes \<open>decoded\<close> of one body as an
  \<^verbatim>\<open>ErrorResponse\<close>; two such bodies with what the decoder makes of them: one that is
  not JSON, which leaves the variable untouched, and an envelope whose \<^verbatim>\<open>code\<close> is a
  string, for which the decoder reports the type error and goes on to fill the message
  in.
\<close>

definition envelope_env :: "bytes \<Rightarrow> string option \<times> ErrorResponse \<Rightarrow> env" where
  "envelope_env body decoded =
     test_env
       \<lparr>json_Unmarshal_ErrorResponse :=
          (\<lambda>b. if b = body then decoded else json_Unmarshal_ErrorResponse test_env b)\<rparr>"


definition ill_typed_body :: bytes where
  "ill_typed_body = ''{\"error\":{\"code\":\"notanint\",\"message\":\"boom\"}}''"

definition ill_typed_env :: env where
  "ill_typed_env =
     envelope_env ill_typed_body
       (Some ''json: cannot unmarshal string into Go struct field .error.code of type int'',
        \<lparr>Error = \<lparr>Code = 0, ErrorBody.Message = ''boom'', Status = ''''\<rparr>\<rparr>)"







text \<open>A world with one readable image file.\<close>

definition image_file_env :: env where
  "image_file_env =
     test_env\<lparr>os_ReadFile := (\<lambda>path. if path = ''/tmp/test.png'' then Inr ''test-image''
                                     else Inl ''no such file or directory'')\<rparr>"

section \<open>The properties in the vocabulary of the specification\<close>

text \<open>
  The inline-data parts of a response, in candidate order and then in part order
  within a candidate: a candidate without content has none, and a part without inline
  data is not one.
\<close>

definition candidate_inline_parts :: "Candidate \<Rightarrow> InlineData list" where
  "candidate_inline_parts candidate =
     (case Content candidate of
        None \<Rightarrow> []
      | Some content \<Rightarrow> List.map_filter InlineData (Parts content))"

definition inline_parts_of :: "GenerateResponse \<Rightarrow> InlineData list" where
  "inline_parts_of resp = concat (map candidate_inline_parts (Candidates resp))"

definition decodes :: "env \<Rightarrow> InlineData \<Rightarrow> bool" where
  "decodes e inl \<longleftrightarrow> \<not> isl (base64_DecodeString e (InlineData.Data inl))"

text \<open>The image of an inline-data part: its decoded bytes and its MIME type.\<close>

definition image_of :: "env \<Rightarrow> InlineData \<Rightarrow> ImageResult" where
  "image_of e inl =
     \<lparr>ImageResult.Data =
        (case base64_DecodeString e (InlineData.Data inl) of Inr data \<Rightarrow> data | Inl err \<Rightarrow> []),
      MIMEType = InlineData.MIMEType inl\<rparr>"








section \<open>Lemmas on the loops of \<^verbatim>\<open>extractImages\<close>\<close>

text \<open>When every payload decodes, the loops append one image for each inline-data part.\<close>

lemma extractParts_decodes:
  "\<forall>inl \<in> set (List.map_filter InlineData parts). decodes e inl \<Longrightarrow>
   extractParts e parts images =
     Inr (images @ map (image_of e) (List.map_filter InlineData parts))"
proof (induction parts arbitrary: images)
  case Nil
  show ?case by simp
next
  case (Cons part parts)
  show ?case
  proof (cases "InlineData part")
    case None
    with Cons show ?thesis by simp
  next
    case (Some inl)
    with Cons.prems have d: "decodes e inl"
      and rest: "\<forall>inl \<in> set (List.map_filter InlineData parts). decodes e inl"
      by simp_all
    from d obtain data where dec: "base64_DecodeString e (InlineData.Data inl) = Inr data"
      by (cases "base64_DecodeString e (InlineData.Data inl)") (simp_all add: decodes_def)
    from Cons.IH [OF rest] Some dec show ?thesis
      by (simp add: image_of_def)
  qed
qed

lemma extractCandidates_decodes:
  "\<forall>inl \<in> set (concat (map candidate_inline_parts cs)). decodes e inl \<Longrightarrow>
   extractCandidates e cs images =
     Inr (images @ map (image_of e) (concat (map candidate_inline_parts cs)))"
proof (induction cs arbitrary: images)
  case Nil
  show ?case by simp
next
  case (Cons c cs)
  from Cons.prems have rest:
    "\<forall>inl \<in> set (concat (map candidate_inline_parts cs)). decodes e inl"
    by simp
  show ?case
  proof (cases "Content c")
    case None
    with Cons.IH [OF rest] show ?thesis by (simp add: candidate_inline_parts_def)
  next
    case (Some content)
    with Cons.prems have "\<forall>inl \<in> set (List.map_filter InlineData (Parts content)). decodes e inl"
      by (simp add: candidate_inline_parts_def)
    from extractParts_decodes [OF this] Cons.IH [OF rest] Some show ?thesis
      by (simp add: candidate_inline_parts_def)
  qed
qed

text \<open>The first payload that does not decode ends the loop over the parts.\<close>

lemma extractParts_fails:
  "\<exists>inl \<in> set (List.map_filter InlineData parts). \<not> decodes e inl \<Longrightarrow>
   \<exists>inl \<in> set (List.map_filter InlineData parts). \<exists>err.
     base64_DecodeString e (InlineData.Data inl) = Inl err \<and>
     extractParts e parts images = Inl (Errorf (''decode image data: '' @ err))"
proof (induction parts arbitrary: images)
  case Nil
  then show ?case by simp
next
  case (Cons part parts)
  show ?case
  proof (cases "InlineData part")
    case None
    with Cons show ?thesis by simp
  next
    case (Some inl)
    show ?thesis
    proof (cases "base64_DecodeString e (InlineData.Data inl)")
      case (Inl err)
      with Some show ?thesis by simp
    next
      case (Inr data)
      with Some Cons.prems
      have "\<exists>inl \<in> set (List.map_filter InlineData parts). \<not> decodes e inl"
        by (simp add: decodes_def)
      from Cons.IH [OF this] Some Inr show ?thesis by simp
    qed
  qed
qed

lemma extractCandidates_fails:
  "\<exists>inl \<in> set (concat (map candidate_inline_parts cs)). \<not> decodes e inl \<Longrightarrow>
   \<exists>inl \<in> set (concat (map candidate_inline_parts cs)). \<exists>err.
     base64_DecodeString e (InlineData.Data inl) = Inl err \<and>
     extractCandidates e cs images = Inl (Errorf (''decode image data: '' @ err))"
proof (induction cs arbitrary: images)
  case Nil
  then show ?case by simp
next
  case (Cons c cs)
  show ?case
  proof (cases "Content c")
    case None
    then have skip: "candidate_inline_parts c = []"
      by (simp add: candidate_inline_parts_def)
    with Cons.prems
    have "\<exists>inl \<in> set (concat (map candidate_inline_parts cs)). \<not> decodes e inl"
      by simp
    from Cons.IH [OF this, of images] None skip show ?thesis by simp
  next
    case (Some content)
    then have parts: "candidate_inline_parts c = List.map_filter InlineData (Parts content)"
      by (simp add: candidate_inline_parts_def)
    show ?thesis
    proof (cases "\<forall>inl \<in> set (List.map_filter InlineData (Parts content)). decodes e inl")
      case True
      with parts Cons.prems
      have "\<exists>inl \<in> set (concat (map candidate_inline_parts cs)). \<not> decodes e inl"
        by auto
      from Cons.IH [OF this] obtain inl err
        where "inl \<in> set (concat (map candidate_inline_parts cs))"
          and "base64_DecodeString e (InlineData.Data inl) = Inl err"
          and "extractCandidates e cs
                 (images @ map (image_of e) (List.map_filter InlineData (Parts content))) =
               Inl (Errorf (''decode image data: '' @ err))"
        by blast
      moreover have "extractCandidates e (c # cs) images =
          extractCandidates e cs
            (images @ map (image_of e) (List.map_filter InlineData (Parts content)))"
        using extractParts_decodes [OF True] Some by simp
      ultimately show ?thesis by auto
    next
      case False
      then have "\<exists>inl \<in> set (List.map_filter InlineData (Parts content)). \<not> decodes e inl"
        by simp
      from extractParts_fails [OF this] obtain inl err
        where "inl \<in> set (List.map_filter InlineData (Parts content))"
          and "base64_DecodeString e (InlineData.Data inl) = Inl err"
          and "extractParts e (Parts content) images =
               Inl (Errorf (''decode image data: '' @ err))"
        by blast
      moreover from this(3) Some have "extractCandidates e (c # cs) images =
          Inl (Errorf (''decode image data: '' @ err))"
        by simp
      ultimately show ?thesis using parts by auto
    qed
  qed
qed

lemma extractCandidates_all:
  assumes "\<forall>inl \<in> set (inline_parts_of resp). decodes e inl"
  shows "extractCandidates e (Candidates resp) [] = Inr (map (image_of e) (inline_parts_of resp))"
  using extractCandidates_decodes [of "Candidates resp" e "[]"] assms
  by (simp add: inline_parts_of_def)

lemma contains_prefix: "strings_Contains (p @ rest) p"
  by (simp add: strings_Contains_def)

lemma decode_message_contains:
  "strings_Contains (''decode image data: '' @ err) ''decode image data''"
proof -
  have "''decode image data: '' @ err = ''decode image data'' @ ('': '' @ err)" by simp
  then show ?thesis by (simp only: contains_prefix)
qed

lemma parse_message_contains:
  "strings_Contains (''parse response: '' @ err) ''parse response''"
proof -
  have "''parse response: '' @ err = ''parse response'' @ ('': '' @ err)" by simp
  then show ?thesis by (simp only: contains_prefix)
qed

section \<open>Claims on the response pipeline\<close>

text \<open>
  Claim C1. Whenever the request was sent, the answer has status 200, its body parses
  as a \<^verbatim>\<open>GenerateResponse\<close> and the prompt feedback of that response has a non-empty
  block reason, \<^verbatim>\<open>doRequest\<close> returns no images but the \<^verbatim>\<open>APIError\<close> with status
  0, exit code 5 and the message \<^verbatim>\<open>prompt blocked: \<close> followed by the reason. Nothing
  is asked of the candidates: they may hold valid images.
\<close>

theorem doRequest_prompt_blocked:
  assumes "json_Marshal e req = Inr body"
      and "http_roundtrip e (BaseURL c @ ''/models/'' @ Model c @ '':generateContent'')
             (APIKey c) body = Response 200 respBody"
      and "json_Unmarshal_GenerateResponse e respBody = Inr genResp"
      and "PromptFeedback genResp = Some feedback"
      and "BlockReason feedback \<noteq> ''''"
  shows "doRequest e c req =
           Inl (APIErr \<lparr>StatusCode = 0,
                        Message = ''prompt blocked: '' @ BlockReason feedback,
                        ExitCode = 5\<rparr>)"
  using assms by (simp add: doRequest_def ExitAPI_def)

text \<open>
  The blocked response of the witness carries an image that \<^verbatim>\<open>extractImages\<close> would
  return.
\<close>

theorem doRequest_prompt_blocked_witness:
  "json_Marshal blocked_server (Generate_request ''a red apple'') = Inr ''{}''
   \<and> http_roundtrip blocked_server
         (BaseURL test_client @ ''/models/'' @ Model test_client @ '':generateContent'')
         (APIKey test_client) ''{}'' = Response 200 blocked_body
   \<and> json_Unmarshal_GenerateResponse blocked_server blocked_body = Inr blocked_response
   \<and> PromptFeedback blocked_response = Some \<lparr>BlockReason = ''SAFETY'', SafetyRatings = []\<rparr>
   \<and> BlockReason \<lparr>BlockReason = ''SAFETY'', SafetyRatings = []\<rparr> \<noteq> ''''
   \<and> extractImages blocked_server blocked_response =
         Inr [\<lparr>ImageResult.Data = ''hello'', MIMEType = ''image/png''\<rparr>]
   \<and> doRequest blocked_server test_client (Generate_request ''a red apple'') =
         Inl (APIErr \<lparr>StatusCode = 0, Message = ''prompt blocked: SAFETY'', ExitCode = 5\<rparr>)"
proof -
  have h1: "json_Marshal blocked_server (Generate_request ''a red apple'') = Inr ''{}''"
    by (simp add: blocked_server_def test_server_def test_env_def)
  have h2: "http_roundtrip blocked_server
         (BaseURL test_client @ ''/models/'' @ Model test_client @ '':generateContent'')
         (APIKey test_client) ''{}'' = Response 200 blocked_body"
    by (simp add: blocked_server_def test_server_def test_env_def)
  have h3: "json_Unmarshal_GenerateResponse blocked_server blocked_body = Inr blocked_response"
    by (simp add: blocked_server_def test_server_def test_env_def)
  have h4: "PromptFeedback blocked_response = Some \<lparr>BlockReason = ''SAFETY'', SafetyRatings = []\<rparr>"
    by (simp add: blocked_response_def)
  have h5: "BlockReason \<lparr>BlockReason = ''SAFETY'', SafetyRatings = []\<rparr> \<noteq> ''''"
    by simp
  have h6: "extractImages blocked_server blocked_response =
         Inr [\<lparr>ImageResult.Data = ''hello'', MIMEType = ''image/png''\<rparr>]"
    by code_simp
  from doRequest_prompt_blocked [OF h1 h2 h3 h4 h5] h1 h2 h3 h4 h5 h6 show ?thesis
    by simp
qed

text \<open>
  Claim C2. When a response has at least one inline-data part and every inline-data
  payload decodes, \<^verbatim>\<open>extractImages\<close> returns exactly the images of the inline-data
  parts (the decoded bytes and the MIME type of each), in candidate order and then part
  order; candidates without content and parts without inline data add nothing and are
  no error.
\<close>

theorem extractImages_one_image_per_inline_part:
  assumes "inline_parts_of resp \<noteq> []"
      and "list_all (decodes e) (inline_parts_of resp)"
  shows "extractImages e resp = Inr (map (image_of e) (inline_parts_of resp))"
proof -
  from assms(2) have "\<forall>inl \<in> set (inline_parts_of resp). decodes e inl"
    by (simp add: list_all_iff)
  from extractCandidates_all [OF this] assms(1) show ?thesis
    by (simp add: extractImages_def)
qed

theorem extractImages_one_image_per_inline_part_witness:
  "inline_parts_of three_image_response \<noteq> []
   \<and> list_all (decodes test_env) (inline_parts_of three_image_response)
   \<and> extractImages test_env three_image_response =
       Inr [\<lparr>ImageResult.Data = ''img-a'', MIMEType = ''image/png''\<rparr>,
            \<lparr>ImageResult.Data = ''img-b'', MIMEType = ''image/png''\<rparr>,
            \<lparr>ImageResult.Data = ''img-c'', MIMEType = ''image/jpeg''\<rparr>]"
proof -
  have parts: "inline_parts_of three_image_response =
      [\<lparr>InlineData.MIMEType = ''image/png'', Data = ''aW1nLWE=''\<rparr>,
       \<lparr>InlineData.MIMEType = ''image/png'', Data = ''aW1nLWI=''\<rparr>,
       \<lparr>InlineData.MIMEType = ''image/jpeg'', Data = ''aW1nLWM=''\<rparr>]"
    by code_simp
  have a: "base64_DecodeString test_env ''aW1nLWE='' = Inr ''img-a''" by code_simp
  have b: "base64_DecodeString test_env ''aW1nLWI='' = Inr ''img-b''" by code_simp
  have c: "base64_DecodeString test_env ''aW1nLWM='' = Inr ''img-c''" by code_simp
  have h1: "inline_parts_of three_image_response \<noteq> []" by (simp add: parts)
  have h2: "list_all (decodes test_env) (inline_parts_of three_image_response)"
    by (simp add: parts decodes_def a b c)
  from extractImages_one_image_per_inline_part [OF h1 h2] h1 h2 show ?thesis
    by (simp add: parts image_of_def a b c)
qed

text \<open>
  Claim C4. When no candidate of a response contributes an inline-data part (every
  candidate is without content or has text parts only, or there is no candidate),
  \<^verbatim>\<open>extractImages\<close> returns no images but the \<^verbatim>\<open>APIError\<close> with status 0, exit
  code 5 and the message \<^verbatim>\<open>no images in response\<close>.
\<close>

theorem extractImages_no_images:
  assumes "inline_parts_of resp = []"
  shows "extractImages e resp =
    Inl (APIErr \<lparr>StatusCode = 0, Message = ''no images in response'', ExitCode = 5\<rparr>)"
proof -
  from assms have "\<forall>inl \<in> set (inline_parts_of resp). decodes e inl" by simp
  from extractCandidates_all [OF this] assms show ?thesis
    by (simp add: extractImages_def ExitAPI_def)
qed

theorem extractImages_no_images_witness:
  "inline_parts_of text_only_response = []
   \<and> inline_parts_of \<lparr>Candidates = [], PromptFeedback = None\<rparr> = []
   \<and> extractImages test_env text_only_response =
       Inl (APIErr \<lparr>StatusCode = 0, Message = ''no images in response'', ExitCode = 5\<rparr>)
   \<and> extractImages test_env \<lparr>Candidates = [], PromptFeedback = None\<rparr> =
       Inl (APIErr \<lparr>StatusCode = 0, Message = ''no images in response'', ExitCode = 5\<rparr>)"
proof -
  have h1: "inline_parts_of text_only_response = []" by code_simp
  have h2: "inline_parts_of \<lparr>Candidates = [], PromptFeedback = None\<rparr> = []" by code_simp
  from extractImages_no_images [OF h1, of test_env] extractImages_no_images [OF h2, of test_env]
    h1 h2
  show ?thesis by simp
qed

text \<open>
  Claim C5, as stated, asks for an \<^verbatim>\<open>APIError\<close> with an exit code. The error
  \<^verbatim>\<open>extractImages\<close> returns for a payload that does not decode is built by
  \<^verbatim>\<open>fmt.Errorf\<close>: the type assertion to \<^verbatim>\<open>*APIError\<close> fails on it, and it carries
  no exit code.
\<close>

theorem extractImages_decode_failure_counterexample:
  "extractImages test_env malformed_base64_response =
     Inl (Errorf ''decode image data: illegal base64 data at input byte 0'')
   \<and> as_APIError (Errorf ''decode image data: illegal base64 data at input byte 0'') = None"
  by code_simp

text \<open>
  Claim C5, amended. When a response has an inline-data part whose payload does not
  decode, \<^verbatim>\<open>extractImages\<close> returns no images (none of those decoded before, either)
  but an error that is not an \<^verbatim>\<open>APIError\<close>: its message is \<^verbatim>\<open>decode image data: \<close>
  followed by the decoder's error for one of the payloads, so it contains
  \<^verbatim>\<open>decode image data\<close>. The function returns in every case: it is total. The exit
  code is given by the caller: \<^verbatim>\<open>handleAPIError\<close> maps the error to the general exit
  code 1 with the same message.
\<close>

theorem extractImages_decode_failure:
  assumes "\<exists>inl \<in> set (inline_parts_of resp). \<not> decodes e inl"
  shows "\<exists>err. (\<exists>inl \<in> set (inline_parts_of resp).
                   base64_DecodeString e (InlineData.Data inl) = Inl err)
           \<and> extractImages e resp = Inl (Errorf (''decode image data: '' @ err))
           \<and> as_APIError (Errorf (''decode image data: '' @ err)) = None
           \<and> handleAPIError (Errorf (''decode image data: '' @ err)) =
               exitError 1 (''decode image data: '' @ err)
           \<and> strings_Contains (''decode image data: '' @ err) ''decode image data''"
proof -
  from assms
  have "\<exists>inl \<in> set (concat (map candidate_inline_parts (Candidates resp))). \<not> decodes e inl"
    by (simp add: inline_parts_of_def)
  from extractCandidates_fails [OF this, of "[]"] obtain inl err
    where "inl \<in> set (inline_parts_of resp)"
      and "base64_DecodeString e (InlineData.Data inl) = Inl err"
      and "extractCandidates e (Candidates resp) [] = Inl (Errorf (''decode image data: '' @ err))"
    unfolding inline_parts_of_def by blast
  then have "(\<exists>inl \<in> set (inline_parts_of resp).
                   base64_DecodeString e (InlineData.Data inl) = Inl err)
           \<and> extractImages e resp = Inl (Errorf (''decode image data: '' @ err))
           \<and> as_APIError (Errorf (''decode image data: '' @ err)) = None
           \<and> handleAPIError (Errorf (''decode image data: '' @ err)) =
               exitError 1 (''decode image data: '' @ err)"
    by (auto simp add: extractImages_def handleAPIError_def ExitGeneral_def)
  with decode_message_contains [of err] show ?thesis by blast
qed

theorem extractImages_decode_failure_witness:
  "(\<exists>inl \<in> set (inline_parts_of malformed_base64_response). \<not> decodes test_env inl)
   \<and> (\<exists>err. extractImages test_env malformed_base64_response =
              Inl (Errorf (''decode image data: '' @ err)))"
proof -
  have h: "\<exists>inl \<in> set (inline_parts_of malformed_base64_response). \<not> decodes test_env inl"
    by code_simp
  from extractImages_decode_failure [OF h] h show ?thesis by blast
qed

text \<open>
  Claim C8, as stated, asks for an \<^verbatim>\<open>APIError\<close> whose exit code is 1. The error
  \<^verbatim>\<open>doRequest\<close> returns for a body that does not parse is built by \<^verbatim>\<open>fmt.Errorf\<close>:
  the type assertion to \<^verbatim>\<open>*APIError\<close> fails on it, and it carries no exit code.
\<close>

theorem doRequest_parse_failure_counterexample:
  "doRequest malformed_server test_client (Generate_request ''test'') =
     Inl (Errorf ''parse response: invalid character 'o' in literal null (expecting 'u')'')
   \<and> as_APIError
        (Errorf ''parse response: invalid character 'o' in literal null (expecting 'u')'') = None"
  by code_simp

text \<open>
  Claim C8, amended. Whenever the request was sent, the answer has status 200 and its
  body does not parse as a \<^verbatim>\<open>GenerateResponse\<close>, \<^verbatim>\<open>doRequest\<close> returns no images but
  an error that is not an \<^verbatim>\<open>APIError\<close>: its message is \<^verbatim>\<open>parse response: \<close> followed
  by the parser's error, so it mentions \<^verbatim>\<open>parse response\<close>. The exit code is given by
  the caller: \<^verbatim>\<open>handleAPIError\<close> maps the error to the general exit code 1 with the
  same message.
\<close>

theorem doRequest_parse_failure:
  assumes "json_Marshal e req = Inr body"
      and "http_roundtrip e (BaseURL c @ ''/models/'' @ Model c @ '':generateContent'')
             (APIKey c) body = Response 200 respBody"
      and "json_Unmarshal_GenerateResponse e respBody = Inl err"
  shows "doRequest e c req = Inl (Errorf (''parse response: '' @ err))
         \<and> as_APIError (Errorf (''parse response: '' @ err)) = None
         \<and> handleAPIError (Errorf (''parse response: '' @ err)) =
             exitError 1 (''parse response: '' @ err)
         \<and> strings_Contains (''parse response: '' @ err) ''parse response''"
  using assms parse_message_contains [of err]
  by (simp add: doRequest_def handleAPIError_def ExitGeneral_def)

theorem doRequest_parse_failure_witness:
  "json_Marshal malformed_server (Generate_request ''test'') = Inr ''{}''
   \<and> http_roundtrip malformed_server
         (BaseURL test_client @ ''/models/'' @ Model test_client @ '':generateContent'')
         (APIKey test_client) ''{}'' = Response 200 ''not json''
   \<and> json_Unmarshal_GenerateResponse malformed_server ''not json'' =
         Inl ''invalid character 'o' in literal null (expecting 'u')''
   \<and> doRequest malformed_server test_client (Generate_request ''test'') =
         Inl (Errorf ''parse response: invalid character 'o' in literal null (expecting 'u')'')
   \<and> handleAPIError
         (Errorf ''parse response: invalid character 'o' in literal null (expecting 'u')'') =
       exitError 1 ''parse response: invalid character 'o' in literal null (expecting 'u')''"
proof -
  have h1: "json_Marshal malformed_server (Generate_request ''test'') = Inr ''{}''"
    by (simp add: malformed_server_def test_server_def test_env_def)
  have h2: "http_roundtrip malformed_server
         (BaseURL test_client @ ''/models/'' @ Model test_client @ '':generateContent'')
         (APIKey test_client) ''{}'' = Response 200 ''not json''"
    by (simp add: malformed_server_def test_server_def test_env_def)
  have h3: "json_Unmarshal_GenerateResponse malformed_server ''not json'' =
         Inl ''invalid character 'o' in literal null (expecting 'u')''"
    by (simp add: malformed_server_def test_server_def test_env_def)
  from doRequest_parse_failure [OF h1 h2 h3] h1 h2 h3 show ?thesis by simp
qed

section \<open>Claims on the classification of a status that is not 200\<close>

text \<open>\<^verbatim>\<open>doRequest\<close> classifies every answer whose status is not 200 by \<^verbatim>\<open>parseAPIError\<close>.\<close>

lemma doRequest_not_200:
  assumes "json_Marshal e req = Inr body"
      and "http_roundtrip e (BaseURL c @ ''/models/'' @ Model c @ '':generateContent'')
             (APIKey c) body = Response status respBody"
      and "status \<noteq> 200"
  shows "doRequest e c req = Inl (APIErr (parseAPIError e status respBody))"
  using assms by (simp add: doRequest_def)

text \<open>
  Claim C3, as stated, has the message fall back whenever the body is not a well-formed
  error envelope. \<^verbatim>\<open>parseAPIError\<close> drops the error of the decoder and looks at the
  message only: for an envelope whose \<^verbatim>\<open>code\<close> is a string the decoder reports an
  error and the message of the envelope is kept all the same.
\<close>

theorem parseAPIError_fallback_counterexample:
  "fst (json_Unmarshal_ErrorResponse ill_typed_env ill_typed_body) =
     Some ''json: cannot unmarshal string into Go struct field .error.code of type int''
   \<and> APIError.Message (parseAPIError ill_typed_env 500 ill_typed_body) =
       ''Gemini server error: boom'' @ [CHR 0x0A, CHR 0x0A] @
       ''This is a temporary issue. Try again shortly.''
   \<and> APIError.Message (parseAPIError ill_typed_env 404 ill_typed_body) = ''boom''
   \<and> ExitCode (parseAPIError ill_typed_env 500 ill_typed_body) = 5"
  by (simp add: parseAPIError_def Let_def ill_typed_env_def envelope_env_def ExitAPI_def)



section \<open>Claims on the requests\<close>

text \<open>
  Claim C9. \<^verbatim>\<open>Generate\<close> hands \<^verbatim>\<open>doRequest\<close> a request with exactly one content, of
  role \<^verbatim>\<open>user\<close>, whose only part is the text part of the prompt. When the image file
  can be read, \<^verbatim>\<open>GenerateWithImage\<close> hands \<^verbatim>\<open>doRequest\<close> a request with exactly one
  content, of role \<^verbatim>\<open>user\<close>, with exactly two parts: the text part of the prompt and
  then an inline-data part with the base64 encoding of the bytes of the file and the
  MIME type detected for its path. The response modalities of both requests include
  \<^verbatim>\<open>TEXT\<close> and \<^verbatim>\<open>IMAGE\<close>.
\<close>

theorem Generate_request_shape:
  "Generate e c prompt = doRequest e c (Generate_request prompt)
   \<and> Contents (Generate_request prompt) =
       [\<lparr>Role = ''user'', Parts = [\<lparr>Text = prompt, InlineData = None\<rparr>]\<rparr>]
   \<and> ''TEXT'' \<in> set (ResponseModalities (GenerationConfig (Generate_request prompt)))
   \<and> ''IMAGE'' \<in> set (ResponseModalities (GenerationConfig (Generate_request prompt)))
   \<and> (os_ReadFile e imagePath = Inr data \<longrightarrow>
        GenerateWithImage e c prompt imagePath =
          doRequest e c
            (GenerateWithImage_request prompt (base64_EncodeToString e data)
               (detectMIMEType e imagePath))
        \<and> Contents (GenerateWithImage_request prompt (base64_EncodeToString e data)
               (detectMIMEType e imagePath)) =
            [\<lparr>Role = ''user'',
              Parts = [\<lparr>Text = prompt, InlineData = None\<rparr>,
                       \<lparr>Text = '''',
                        InlineData = Some \<lparr>InlineData.MIMEType = detectMIMEType e imagePath,
                                           Data = base64_EncodeToString e data\<rparr>\<rparr>]\<rparr>]
        \<and> ''TEXT'' \<in> set (ResponseModalities (GenerationConfig
              (GenerateWithImage_request prompt (base64_EncodeToString e data)
                 (detectMIMEType e imagePath))))
        \<and> ''IMAGE'' \<in> set (ResponseModalities (GenerationConfig
              (GenerateWithImage_request prompt (base64_EncodeToString e data)
                 (detectMIMEType e imagePath)))))"
  by (simp add: Generate_def Generate_request_def GenerateWithImage_def
      GenerateWithImage_request_def readImageFile_def)

theorem Generate_request_shape_witness:
  "os_ReadFile image_file_env ''/tmp/test.png'' = Inr ''test-image''
   \<and> GenerateWithImage image_file_env test_client ''make it blue'' ''/tmp/test.png'' =
       doRequest image_file_env test_client
         \<lparr>Contents =
            [\<lparr>Role = ''user'',
              Parts = [\<lparr>Text = ''make it blue'', InlineData = None\<rparr>,
                       \<lparr>Text = '''',
                        InlineData = Some \<lparr>InlineData.MIMEType = ''image/png'',
                                           Data = ''dGVzdC1pbWFnZQ==''\<rparr>\<rparr>]\<rparr>],
          GenerationConfig = \<lparr>ResponseModalities = [''TEXT'', ''IMAGE'']\<rparr>\<rparr>"
proof -
  have h: "os_ReadFile image_file_env ''/tmp/test.png'' = Inr ''test-image''"
    by (simp add: image_file_env_def)
  have enc: "base64_EncodeToString image_file_env ''test-image'' = ''dGVzdC1pbWFnZQ==''"
    by code_simp
  have mime: "detectMIMEType image_file_env ''/tmp/test.png'' = ''image/png''"
    by code_simp
  from Generate_request_shape [of image_file_env test_client "''make it blue''"
      "''/tmp/test.png''" "''test-image''"] h
  show ?thesis by (simp add: enc mime GenerateWithImage_request_def)
qed

text \<open>On a string of ASCII bytes \<^verbatim>\<open>strings.ToLower\<close> does not consult the Unicode tables.\<close>

lemma strings_ToLower_ascii:
  "list_all (\<lambda>c. of_char c < (128::nat)) s \<Longrightarrow> strings_ToLower u s = map ascii_lower s"
  by (simp add: strings_ToLower_def)

text \<open>
  Claim C10. The MIME type \<^verbatim>\<open>GenerateWithImage\<close> sends for an image path is the one
  of \<^verbatim>\<open>detectMIMEType\<close>, which is decided by the extension of the path in lower case:
  \<^verbatim>\<open>.png\<close> gives \<^verbatim>\<open>image/png\<close>, \<^verbatim>\<open>.jpg\<close> and \<^verbatim>\<open>.jpeg\<close> give \<^verbatim>\<open>image/jpeg\<close>,
  \<^verbatim>\<open>.gif\<close> gives \<^verbatim>\<open>image/gif\<close>, \<^verbatim>\<open>.webp\<close> gives \<^verbatim>\<open>image/webp\<close>, \<^verbatim>\<open>.bmp\<close> gives
  \<^verbatim>\<open>image/bmp\<close>, and every other extension, or none, gives \<^verbatim>\<open>image/png\<close>. The case
  of the letters does not matter: two paths whose ASCII extensions differ in the case
  of letters only get the same type.
\<close>

theorem detectMIMEType_by_extension:
  "(strings_ToLower (unicode_ToLower e) (filepath_Ext path) = ''.png'' \<longrightarrow>
      detectMIMEType e path = ''image/png'')
   \<and> (strings_ToLower (unicode_ToLower e) (filepath_Ext path) = ''.jpg'' \<or>
       strings_ToLower (unicode_ToLower e) (filepath_Ext path) = ''.jpeg'' \<longrightarrow>
      detectMIMEType e path = ''image/jpeg'')
   \<and> (strings_ToLower (unicode_ToLower e) (filepath_Ext path) = ''.gif'' \<longrightarrow>
      detectMIMEType e path = ''image/gif'')
   \<and> (strings_ToLower (unicode_ToLower e) (filepath_Ext path) = ''.webp'' \<longrightarrow>
      detectMIMEType e path = ''image/webp'')
   \<and> (strings_ToLower (unicode_ToLower e) (filepath_Ext path) = ''.bmp'' \<longrightarrow>
      detectMIMEType e path = ''image/bmp'')
   \<and> (strings_ToLower (unicode_ToLower e) (filepath_Ext path)
         \<notin> {''.png'', ''.jpg'', ''.jpeg'', ''.gif'', ''.webp'', ''.bmp''} \<longrightarrow>
      detectMIMEType e path = ''image/png'')
   \<and> (list_all (\<lambda>c. of_char c < (128::nat)) (filepath_Ext path) \<and>
       list_all (\<lambda>c. of_char c < (128::nat)) (filepath_Ext path') \<and>
       map ascii_lower (filepath_Ext path) = map ascii_lower (filepath_Ext path') \<longrightarrow>
      detectMIMEType e path = detectMIMEType e path')
   \<and> (os_ReadFile e path = Inr data \<longrightarrow>
      readImageFile e path = Inr (base64_EncodeToString e data, detectMIMEType e path)
      \<and> GenerateWithImage e c prompt path =
          doRequest e c
            (GenerateWithImage_request prompt (base64_EncodeToString e data)
               (detectMIMEType e path)))"
  by (simp add: detectMIMEType_def Let_def readImageFile_def strings_ToLower_ascii
      GenerateWithImage_def)

theorem detectMIMEType_by_extension_witness:
  "detectMIMEType image_file_env ''photo.PNG'' = ''image/png''
   \<and> detectMIMEType image_file_env ''scans/page.1/front.JPG'' = ''image/jpeg''
   \<and> detectMIMEType image_file_env ''front.Jpeg'' = ''image/jpeg''
   \<and> detectMIMEType image_file_env ''anim.GIF'' = ''image/gif''
   \<and> detectMIMEType image_file_env ''pic.WebP'' = ''image/webp''
   \<and> detectMIMEType image_file_env ''old.bmp'' = ''image/bmp''
   \<and> detectMIMEType image_file_env ''doc.tiff'' = ''image/png''
   \<and> detectMIMEType image_file_env ''dir.gif/README'' = ''image/png''
   \<and> detectMIMEType image_file_env ''front.jpeg'' = detectMIMEType image_file_env ''front.JPEG''
   \<and> os_ReadFile image_file_env ''/tmp/test.png'' = Inr ''test-image''
   \<and> readImageFile image_file_env ''/tmp/test.png'' = Inr (''dGVzdC1pbWFnZQ=='', ''image/png'')"
proof -
  let ?lower = "\<lambda>path. strings_ToLower (unicode_ToLower image_file_env) (filepath_Ext path)"
  have l: "?lower ''photo.PNG'' = ''.png''" "?lower ''scans/page.1/front.JPG'' = ''.jpg''"
    "?lower ''front.Jpeg'' = ''.jpeg''" "?lower ''anim.GIF'' = ''.gif''"
    "?lower ''pic.WebP'' = ''.webp''" "?lower ''old.bmp'' = ''.bmp''"
    "?lower ''doc.tiff'' = ''.tiff''" "?lower ''dir.gif/README'' = ''''"
    "?lower ''/tmp/test.png'' = ''.png''"
    by code_simp+
  have a: "list_all (\<lambda>c. of_char c < (128::nat)) (filepath_Ext ''front.jpeg'')"
    "list_all (\<lambda>c. of_char c < (128::nat)) (filepath_Ext ''front.JPEG'')"
    "map ascii_lower (filepath_Ext ''front.jpeg'') = map ascii_lower (filepath_Ext ''front.JPEG'')"
    by code_simp+
  have h: "os_ReadFile image_file_env ''/tmp/test.png'' = Inr ''test-image''"
    by (simp add: image_file_env_def)
  have enc: "base64_EncodeToString image_file_env ''test-image'' = ''dGVzdC1pbWFnZQ==''"
    by code_simp
  note inst = detectMIMEType_by_extension [where e = image_file_env and data = "''test-image''"
      and c = test_client and prompt = "''make it blue''"]
  from inst [where path = "''photo.PNG''" and path' = "''photo.PNG''"]
       inst [where path = "''scans/page.1/front.JPG''" and path' = "''photo.PNG''"]
       inst [where path = "''front.Jpeg''" and path' = "''photo.PNG''"]
       inst [where path = "''anim.GIF''" and path' = "''photo.PNG''"]
       inst [where path = "''pic.WebP''" and path' = "''photo.PNG''"]
       inst [where path = "''old.bmp''" and path' = "''photo.PNG''"]
       inst [where path = "''doc.tiff''" and path' = "''photo.PNG''"]
       inst [where path = "''dir.gif/README''" and path' = "''photo.PNG''"]
       inst [where path = "''front.jpeg''" and path' = "''front.JPEG''"]
       inst [where path = "''/tmp/test.png''" and path' = "''photo.PNG''"]
       l a h enc
  show ?thesis by simp
qed

section \<open>Lemmas on paths and decimal numbers\<close>










section \<open>Lemmas on \<^verbatim>\<open>dedup\<close> and \<^verbatim>\<open>WriteImage\<close>\<close>














section \<open>Claims on the file writer\<close>






end
